theory Spec2Isabelle
  imports Main
begin

section \<open>The Vulkan execution context of ATen (api/Context.cpp)\<close>

text \<open>
  A shallow embedding of \<^verbatim>\<open>aten/src/ATen/native/vulkan/api/Context.cpp\<close>.
  Every function of that file is a HOL function on an explicit program state.
  A C++ exception is the left injection of a sum; a function that throws still
  returns the state it had reached, because what it did to objects passed by
  reference stays done.  Calls that leave the file (the Vulkan driver, the
  runtime, the pools, the caches, the tensor) append to a trace, in program
  order, so that the order of effects can be stated.
\<close>

subsection \<open>Handles, results, exceptions\<close>

type_synonym handle = nat
type_synonym VkResult = int
type_synonym thread = nat

definition VK_NULL_HANDLE :: handle where
  "VK_NULL_HANDLE = 0"

definition VK_SUCCESS :: VkResult where
  "VK_SUCCESS = 0"

text \<open>
  \<open>TorchCheck\<close> is the \<^verbatim>\<open>c10::Error\<close> of a failed \<^verbatim>\<open>TORCH_CHECK\<close>,
  \<open>VkCheck\<close> the one of a failed \<^verbatim>\<open>VK_CHECK\<close> (it carries the
  \<^verbatim>\<open>VkResult\<close>), \<open>DebugAssert\<close> the one of a failed
  \<^verbatim>\<open>TORCH_INTERNAL_ASSERT_DEBUG_ONLY\<close>.  \<open>StdException\<close> is any other
  exception derived from \<^verbatim>\<open>std::exception\<close> that a collaborator throws,
  \<open>UnknownException\<close> one that is not.  \<open>DanglingPointer\<close> stands for the
  dereference of a pointer to no live object, which no function of the file
  performs on a pointer it obtained itself.
\<close>

datatype error =
    TorchCheck string
  | VkCheck VkResult
  | DebugAssert string
  | StdException string
  | UnknownException
  | DanglingPointer

text \<open>
  \<^verbatim>\<open>e.what()\<close>.  For a \<^verbatim>\<open>c10::Error\<close> the text is the message of the check;
  the source location and the backtrace that c10 appends are left out, and
  the text that \<^verbatim>\<open>VK_CHECK\<close> composes, which is not in the file, is
  abbreviated.
\<close>

fun what :: "error \<Rightarrow> string" where
  "what (TorchCheck m) = m"
| "what (VkCheck r) = ''VkResult''"
| "what (DebugAssert m) = m"
| "what (StdException m) = m"
| "what UnknownException = ''Unknown''"
| "what DanglingPointer = ''Unknown''"

fun is_std_exception :: "error \<Rightarrow> bool" where
  "is_std_exception UnknownException = False"
| "is_std_exception DanglingPointer = False"
| "is_std_exception _ = True"

type_synonym ('a, 's) action = "'s \<Rightarrow> (error + 'a) \<times> 's"

definition ok :: "'a \<Rightarrow> ('a, 's) action" where
  "ok x s = (Inr x, s)"

definition throw :: "error \<Rightarrow> ('a, 's) action" where
  "throw e s = (Inl e, s)"

definition and_then :: "('a, 's) action \<Rightarrow> ('a \<Rightarrow> ('b, 's) action) \<Rightarrow> ('b, 's) action" where
  "and_then m f s = (case m s of (Inl e, s') \<Rightarrow> (Inl e, s') | (Inr x, s') \<Rightarrow> f x s')"

subsection \<open>Shader, pipeline, descriptor and command objects\<close>

text \<open>
  Modelled from the spec: the value types of Shader.h, Pipeline.h, Descriptor.h
  and Command.h, which are not part of the file.  A layout signature is the ordered sequence of the
  binding types; a work group is three unsigned integers.
\<close>

datatype VkDescriptorType =
    STORAGE_BUFFER | STORAGE_IMAGE | UNIFORM_BUFFER | COMBINED_IMAGE_SAMPLER

type_synonym Shader_Layout_Signature = "VkDescriptorType list"

type_synonym Shader_Descriptor = string

type_synonym WorkGroup = "nat \<times> nat \<times> nat"

record Shader_Layout_Object =
  layout_handle :: handle
  layout_signature :: Shader_Layout_Signature

record Pipeline_Descriptor =
  pipeline_layout :: handle
  shader_module :: handle
  local_work_group :: WorkGroup

record Pipeline_Object =
  pipeline_handle :: handle
  pipeline_object_layout :: handle
  pipeline_local_work_group :: WorkGroup

record Descriptor_Set =
  set_handle :: handle
  set_layout :: Shader_Layout_Object
  set_bindings :: "(nat \<times> handle) list"

datatype command =
    CmdBindPipeline Pipeline_Object
  | CmdBindDescriptorSet Descriptor_Set
  | CmdDispatch WorkGroup

record Buffer =
  buffer_handle :: handle
  commands :: "command list"

subsection \<open>Pools, caches and the context object\<close>

record Resource_Pool =
  resource_objects :: "handle list"

record Descriptor_Pool =
  descriptor_sets :: "Descriptor_Set list"

record Command_Pool =
  command_buffers :: "handle list"
  open_stream :: "handle option"

record ThreadContext =
  tc_resource :: Resource_Pool
  tc_descriptor :: Descriptor_Pool
  tc_command :: Command_Pool

record Shader =
  shader_layout_cache :: "(Shader_Layout_Signature \<times> handle) list"
  shader_cache :: "(Shader_Descriptor \<times> handle) list"

record Pipeline =
  pipeline_layout_cache :: "(handle \<times> handle) list"
  pipeline_cache :: "(Pipeline_Descriptor \<times> handle) list"

text \<open>
  The members of \<^verbatim>\<open>Context\<close> (\<^verbatim>\<open>instance_\<close>, \<^verbatim>\<open>adapter_i_\<close>,
  \<^verbatim>\<open>device_\<close>, \<^verbatim>\<open>queue_\<close>, \<^verbatim>\<open>shader_\<close>, \<^verbatim>\<open>pipeline_\<close>,
  \<^verbatim>\<open>threadcontext_\<close>), in the order of the constructor's initialiser
  list.  \<open>ctx_threadcontext\<close> holds one set of pools for each
  thread: the accessors \<^verbatim>\<open>resource()\<close>, \<^verbatim>\<open>descriptor()\<close> and
  \<^verbatim>\<open>command()\<close> give the calling thread its own.
\<close>

record Context =
  ctx_instance :: handle
  ctx_adapter_i :: nat
  ctx_device :: handle
  ctx_queue :: handle
  ctx_shader :: Shader
  ctx_pipeline :: Pipeline
  ctx_threadcontext :: "thread \<Rightarrow> ThreadContext"

subsection \<open>The environment: build, driver, runtime\<close>

datatype access = Read | Write

record Future =
  future_tensor :: handle
  future_access :: access
  future_stream :: handle

datatype pool_kind = ResourcePool | DescriptorPool | CommandPool

text \<open>
  Modelled from the spec: what \<^verbatim>\<open>gpu()\<close> of Context.h, which is not part of
  the file, hands to the constructors of the members \<^verbatim>\<open>shader_\<close>,
  \<^verbatim>\<open>pipeline_\<close> and \<^verbatim>\<open>threadcontext_\<close>: the handles the context holds
  by then.
\<close>

record GPU =
  gpu_instance :: handle
  gpu_adapter_i :: nat
  gpu_device :: handle
  gpu_queue :: handle

datatype member = ShaderMember | PipelineMember | ThreadContextMember

datatype event =
    EvEnumerateDeviceExtensionProperties handle
  | EvConstructMember member GPU
  | EvCreateDevice handle nat "string list"
  | EvVolkLoadDevice handle
  | EvGetDeviceQueue handle nat nat
  | EvQueueWaitIdle handle
  | EvDeviceHandle nat
  | EvRequestQueue nat
  | EvReturnQueue nat handle
  | EvPurge pool_kind thread
  | EvStream thread
  | EvHost handle access handle
  | EvFutureWait Future
  | EvRetrieveShaderLayout Shader_Layout_Signature
  | EvRetrievePipelineLayout handle
  | EvRetrieveShader Shader_Descriptor
  | EvRetrievePipeline Pipeline_Descriptor
  | EvAllocateDescriptorSet thread handle

datatype native_call =
    QueueWaitIdle handle
  | CreateDescriptorSetLayout Shader_Layout_Signature
  | CreatePipelineLayout handle
  | CreateShaderModule Shader_Descriptor
  | CreateComputePipeline Pipeline_Descriptor
  | AllocateDescriptorSet handle
  | AllocateCommandBuffer

text \<open>
  Modelled from the spec: the adapter and the runtime (Adapter.h and Runtime.h,
  not part of the file), by what their calls give back: \<^verbatim>\<open>device_handle()\<close>
  and \<^verbatim>\<open>request_queue()\<close> either throw or hand out a handle.
\<close>

record Adapter =
  device_handle :: "error + handle"
  request_queue :: "error + handle"

record Runtime =
  rt_instance :: handle
  default_adapter_i :: nat
  get_adapter :: "nat \<Rightarrow> Adapter"

text \<open>
  What the program cannot change: how it was built
  (\<^verbatim>\<open>NDEBUG\<close>, \<^verbatim>\<open>VK_KHR_portability_subset\<close>, \<^verbatim>\<open>USE_VULKAN_WRAPPER\<close> with
  \<^verbatim>\<open>USE_VULKAN_VOLK\<close>), what the driver answers, the runtime, and whether
  the constructor of a member of the context, given what \<^verbatim>\<open>gpu()\<close> hands
  it, throws (\<open>None\<close> when it does not).
\<close>

record env =
  debug_build :: bool
  portability_subset :: bool
  vulkan_volk :: bool
  native :: "native_call \<Rightarrow> VkResult"
  construct_member :: "member \<Rightarrow> GPU \<Rightarrow> error option"
  enumerate_count :: "handle \<Rightarrow> VkResult \<times> nat"
  enumerate_properties :: "handle \<Rightarrow> nat \<Rightarrow> VkResult \<times> string list"
  create_device_result :: "handle \<Rightarrow> nat \<Rightarrow> string list \<Rightarrow> VkResult \<times> handle"
  device_queue :: "handle \<Rightarrow> nat \<Rightarrow> nat \<Rightarrow> handle"
  runtime :: Runtime

text \<open>
  The program state.  \<open>leased\<close> are the queues handed out by
  \<^verbatim>\<open>request_queue\<close> and not yet returned; \<open>in_flight\<close> is the work
  submitted to a queue and not yet completed, with the thread that submitted
  it; \<open>resolved\<close> are the futures that have been waited for; \<open>heap\<close> holds
  the live \<^verbatim>\<open>Context\<close> objects and \<open>allocated\<close> counts the ones created
  with \<^verbatim>\<open>new\<close>; \<open>context_static\<close> is the function-local static of
  \<^verbatim>\<open>context()\<close>, \<open>None\<close> until its initialisation has completed.
\<close>

record state =
  env :: env
  trace :: "event list"
  leased :: "(nat \<times> handle) list"
  in_flight :: "(handle \<times> thread) list"
  resolved :: "Future list"
  heap :: "nat \<Rightarrow> Context option"
  allocated :: nat
  context_static :: "nat option"

definition emit :: "event \<Rightarrow> state \<Rightarrow> state" where
  "emit e s = s\<lparr>trace := trace s @ [e]\<rparr>"

subsection \<open>The checking macros\<close>

text \<open>
  Modelled from the spec: the macros of c10, which are not part of the file.
  \<^verbatim>\<open>TORCH_CHECK(cond, msg)\<close> throws when the condition is false, in every
  build.
\<close>

definition TORCH_CHECK :: "bool \<Rightarrow> string \<Rightarrow> (unit, 's) action" where
  "TORCH_CHECK cond msg = (if cond then ok () else throw (TorchCheck msg))"

text \<open>
  \<^verbatim>\<open>TORCH_INTERNAL_ASSERT_DEBUG_ONLY(cond, msg)\<close>: checked in debug builds only.
\<close>

definition TORCH_INTERNAL_ASSERT_DEBUG_ONLY :: "bool \<Rightarrow> string \<Rightarrow> (unit, state) action" where
  "TORCH_INTERNAL_ASSERT_DEBUG_ONLY cond msg s =
     (if debug_build (env s) \<and> \<not> cond then throw (DebugAssert msg) s else ok () s)"

text \<open>
  Modelled from the spec: the macro \<^verbatim>\<open>VK_CHECK\<close> is defined in Common.h, which is
  not part of the file.  A native call that does not report success surfaces as
  a fatal error that carries the result.
\<close>

definition VK_CHECK :: "VkResult \<Rightarrow> (unit, 's) action" where
  "VK_CHECK r = (if r = VK_SUCCESS then ok () else throw (VkCheck r))"

subsection \<open>create_device and acquire_queue\<close>

definition VK_KHR_PORTABILITY_SUBSET_EXTENSION_NAME :: string where
  "VK_KHR_PORTABILITY_SUBSET_EXTENSION_NAME = ''VK_KHR_portability_subset''"

definition requested_device_extensions :: "env \<Rightarrow> string list" where
  "requested_device_extensions b =
     (if portability_subset b then [VK_KHR_PORTABILITY_SUBSET_EXTENSION_NAME] else [])"

text \<open>The inner loop: the first extension with the requested name enables it, once.\<close>

fun enable_if_present :: "string \<Rightarrow> string list \<Rightarrow> string list \<Rightarrow> string list" where
  "enable_if_present requested [] enabled = enabled"
| "enable_if_present requested (extension # rest) enabled =
     (if requested = extension then enabled @ [requested]
      else enable_if_present requested rest enabled)"

fun enable_extensions :: "string list \<Rightarrow> string list \<Rightarrow> string list \<Rightarrow> string list" where
  "enable_extensions [] properties enabled = enabled"
| "enable_extensions (requested # rest) properties enabled =
     enable_extensions rest properties (enable_if_present requested properties enabled)"

text \<open>
  The vector of extension properties has as many entries as the first call
  counted; the second call fills a prefix of it and the rest keeps the empty
  name.
\<close>

definition device_extension_properties :: "nat \<Rightarrow> string list \<Rightarrow> string list" where
  "device_extension_properties n written = take n (written @ replicate n [])"

definition volk_load :: "handle \<Rightarrow> (unit, state) action" where
  "volk_load device s =
     (if vulkan_volk (env s) then ok () (emit (EvVolkLoadDevice device) s) else ok () s)"

definition create_device :: "handle \<Rightarrow> nat \<Rightarrow> (handle, state) action" where
  "create_device physical_device compute_queue_family_index =
     and_then (TORCH_INTERNAL_ASSERT_DEBUG_ONLY (physical_device \<noteq> VK_NULL_HANDLE)
                 ''Invalid Vulkan physical device!'') (\<lambda>_.
     and_then (\<lambda>s. ok (enumerate_count (env s) physical_device)
                 (emit (EvEnumerateDeviceExtensionProperties physical_device) s)) (\<lambda>(r1, n).
     and_then (VK_CHECK r1) (\<lambda>_.
     and_then (\<lambda>s. ok (enumerate_properties (env s) physical_device n)
                 (emit (EvEnumerateDeviceExtensionProperties physical_device) s)) (\<lambda>(r2, written).
     and_then (VK_CHECK r2) (\<lambda>_.
     and_then (\<lambda>s. ok (enable_extensions (requested_device_extensions (env s))
                        (device_extension_properties n written) []) s) (\<lambda>enabled.
     and_then (\<lambda>s. ok (create_device_result (env s) physical_device
                        compute_queue_family_index enabled)
                 (emit (EvCreateDevice physical_device compute_queue_family_index enabled) s))
       (\<lambda>(r3, device).
     and_then (VK_CHECK r3) (\<lambda>_.
     and_then (TORCH_CHECK (device \<noteq> VK_NULL_HANDLE) ''Invalid Vulkan device!'') (\<lambda>_.
     and_then (volk_load device) (\<lambda>_.
     ok device))))))))))"

definition acquire_queue :: "handle \<Rightarrow> nat \<Rightarrow> (handle, state) action" where
  "acquire_queue device compute_queue_family_index =
     and_then (TORCH_INTERNAL_ASSERT_DEBUG_ONLY (device \<noteq> VK_NULL_HANDLE)
                 ''Invalid Vulkan device!'') (\<lambda>_.
     and_then (\<lambda>s. ok (device_queue (env s) device compute_queue_family_index 0)
                 (emit (EvGetDeviceQueue device compute_queue_family_index 0) s)) (\<lambda>queue.
     and_then (TORCH_CHECK (queue \<noteq> VK_NULL_HANDLE) ''Invalid Vulkan queue!'') (\<lambda>_.
     ok queue)))"

subsection \<open>The collaborators\<close>

text \<open>An action on the program state, run beside an object passed by reference.\<close>

definition lift :: "('a, 's) action \<Rightarrow> ('a, 'x \<times> 's) action" where
  "lift m = (\<lambda>(x, s). case m s of (r, s') \<Rightarrow> (r, (x, s')))"

text \<open>
  A member function called through a pointer: the object is read from the
  heap, the member function runs on it, and the object is written back.
\<close>

definition with_this :: "nat \<Rightarrow> ('a, Context \<times> state) action \<Rightarrow> ('a, state) action" where
  "with_this this m s =
     (case heap s this of
        None \<Rightarrow> throw DanglingPointer s
      | Some c \<Rightarrow> (case m (c, s) of (r, (c', s')) \<Rightarrow> (r, s'\<lparr>heap := (heap s')(this \<mapsto> c')\<rparr>)))"

text \<open>A handle that none of the given ones equals, and that is not null.\<close>

definition fresh_handle :: "handle list \<Rightarrow> handle" where
  "fresh_handle hs = Suc (fold max hs 0)"

text \<open>
  Modelled from the spec: the adapter of the runtime (Runtime.h and Adapter.h are
  not part of the file).  \<^verbatim>\<open>request_queue()\<close> and \<^verbatim>\<open>return_queue(queue)\<close> are a
  lease and its release.
\<close>

definition adapter_device_handle :: "nat \<Rightarrow> (handle, state) action" where
  "adapter_device_handle i s =
     (case device_handle (get_adapter (runtime (env s)) i) of
        Inl e \<Rightarrow> throw e (emit (EvDeviceHandle i) s)
      | Inr device \<Rightarrow> ok device (emit (EvDeviceHandle i) s))"

definition adapter_request_queue :: "nat \<Rightarrow> (handle, state) action" where
  "adapter_request_queue i s =
     (case request_queue (get_adapter (runtime (env s)) i) of
        Inl e \<Rightarrow> throw e (emit (EvRequestQueue i) s)
      | Inr queue \<Rightarrow> ok queue ((emit (EvRequestQueue i) s)\<lparr>leased := leased s @ [(i, queue)]\<rparr>))"

definition adapter_return_queue :: "nat \<Rightarrow> handle \<Rightarrow> (unit, state) action" where
  "adapter_return_queue i queue s =
     ok () ((emit (EvReturnQueue i queue) s)\<lparr>leased := remove1 (i, queue) (leased s)\<rparr>)"

text \<open>
  Modelled from the spec: \<^verbatim>\<open>vkQueueWaitIdle\<close> of the Vulkan API.  When it reports
  success, all work submitted to the queue before the call has completed,
  whichever thread submitted it.
\<close>

definition vkQueueWaitIdle :: "handle \<Rightarrow> (VkResult, state) action" where
  "vkQueueWaitIdle queue s =
     (let r = native (env s) (QueueWaitIdle queue) in
      if r = VK_SUCCESS
      then ok r ((emit (EvQueueWaitIdle queue) s)
                   \<lparr>in_flight := filter (\<lambda>(q, t). q \<noteq> queue) (in_flight s)\<rparr>)
      else ok r (emit (EvQueueWaitIdle queue) s))"

text \<open>
  Modelled from the spec: the pools of Resource.h, Descriptor.h and Command.h,
  reached through the accessors \<^verbatim>\<open>resource()\<close>, \<^verbatim>\<open>descriptor()\<close> and
  \<^verbatim>\<open>command()\<close> of Context.h, which give the calling thread its own pool.
  \<^verbatim>\<open>purge()\<close> invalidates every object allocated from the pool;
  \<^verbatim>\<open>allocate(layout)\<close> returns a fresh descriptor set of that layout, or fails
  when the driver does; \<^verbatim>\<open>stream()\<close> returns the open command buffer of the
  thread and creates one if none is open.
\<close>

definition update_thread :: "thread \<Rightarrow> (ThreadContext \<Rightarrow> ThreadContext) \<Rightarrow> Context \<Rightarrow> Context" where
  "update_thread t f c = c\<lparr>ctx_threadcontext := (ctx_threadcontext c)(t := f (ctx_threadcontext c t))\<rparr>"

definition resource_pool_purge :: "thread \<Rightarrow> (unit, Context \<times> state) action" where
  "resource_pool_purge t = (\<lambda>(c, s).
     ok () (update_thread t (\<lambda>tc. tc\<lparr>tc_resource := \<lparr>resource_objects = []\<rparr>\<rparr>) c,
            emit (EvPurge ResourcePool t) s))"

definition descriptor_pool_purge :: "thread \<Rightarrow> (unit, Context \<times> state) action" where
  "descriptor_pool_purge t = (\<lambda>(c, s).
     ok () (update_thread t (\<lambda>tc. tc\<lparr>tc_descriptor := \<lparr>descriptor_sets = []\<rparr>\<rparr>) c,
            emit (EvPurge DescriptorPool t) s))"

definition command_pool_purge :: "thread \<Rightarrow> (unit, Context \<times> state) action" where
  "command_pool_purge t = (\<lambda>(c, s).
     ok () (update_thread t
              (\<lambda>tc. tc\<lparr>tc_command := \<lparr>command_buffers = [], open_stream = None\<rparr>\<rparr>) c,
            emit (EvPurge CommandPool t) s))"

definition descriptor_pool_allocate ::
  "thread \<Rightarrow> Shader_Layout_Object \<Rightarrow> (Descriptor_Set, Context \<times> state) action" where
  "descriptor_pool_allocate t shader_layout = (\<lambda>(c, s).
     let r = native (env s) (AllocateDescriptorSet (layout_handle shader_layout));
         pool = descriptor_sets (tc_descriptor (ctx_threadcontext c t));
         new_set = \<lparr>set_handle = fresh_handle (map set_handle pool),
                    set_layout = shader_layout, set_bindings = []\<rparr>;
         s1 = emit (EvAllocateDescriptorSet t (layout_handle shader_layout)) s
     in if r = VK_SUCCESS
        then ok new_set (update_thread t
                       (\<lambda>tc. tc\<lparr>tc_descriptor := \<lparr>descriptor_sets = pool @ [new_set]\<rparr>\<rparr>) c, s1)
        else throw (VkCheck r) (c, s1))"

definition command_pool_stream :: "thread \<Rightarrow> (handle, Context \<times> state) action" where
  "command_pool_stream t = (\<lambda>(c, s).
     let pool = tc_command (ctx_threadcontext c t); s1 = emit (EvStream t) s in
     case open_stream pool of
       Some b \<Rightarrow> ok b (c, s1)
     | None \<Rightarrow>
         let r = native (env s) AllocateCommandBuffer; b = fresh_handle (command_buffers pool)
         in if r = VK_SUCCESS
            then ok b (update_thread t
                         (\<lambda>tc. tc\<lparr>tc_command :=
                            \<lparr>command_buffers = command_buffers pool @ [b],
                             open_stream = Some b\<rparr>\<rparr>) c, s1)
            else throw (VkCheck r) (c, s1))"

text \<open>
  Modelled from the spec: \<^verbatim>\<open>retrieve(signature)\<close> of the caches of Cache.h,
  Shader.h and Pipeline.h.  It returns the cached object of the signature and
  constructs and inserts it on the first request; when the construction fails
  nothing is inserted.  The object of a signature is its native handle
  together with the parts of the signature it keeps.
\<close>

definition retrieve ::
  "('k \<times> handle) list \<Rightarrow> 'k \<Rightarrow> VkResult \<Rightarrow> (error + handle) \<times> ('k \<times> handle) list" where
  "retrieve cache key r =
     (case map_of cache key of
        Some h \<Rightarrow> (Inr h, cache)
      | None \<Rightarrow>
          if r = VK_SUCCESS
          then (Inr (fresh_handle (map snd cache)), cache @ [(key, fresh_handle (map snd cache))])
          else (Inl (VkCheck r), cache))"

definition shader_layout_cache_retrieve ::
  "Shader_Layout_Signature \<Rightarrow> (Shader_Layout_Object, Context \<times> state) action" where
  "shader_layout_cache_retrieve signature = (\<lambda>(c, s).
     let s1 = emit (EvRetrieveShaderLayout signature) s in
     case retrieve (shader_layout_cache (ctx_shader c)) signature
            (native (env s) (CreateDescriptorSetLayout signature)) of
       (Inl e, cache) \<Rightarrow> throw e (c, s1)
     | (Inr h, cache) \<Rightarrow>
         ok \<lparr>layout_handle = h, layout_signature = signature\<rparr>
            (c\<lparr>ctx_shader := (ctx_shader c)\<lparr>shader_layout_cache := cache\<rparr>\<rparr>, s1))"

definition shader_cache_retrieve :: "Shader_Descriptor \<Rightarrow> (handle, Context \<times> state) action" where
  "shader_cache_retrieve descriptor = (\<lambda>(c, s).
     let s1 = emit (EvRetrieveShader descriptor) s in
     case retrieve (shader_cache (ctx_shader c)) descriptor
            (native (env s) (CreateShaderModule descriptor)) of
       (Inl e, cache) \<Rightarrow> throw e (c, s1)
     | (Inr h, cache) \<Rightarrow> ok h (c\<lparr>ctx_shader := (ctx_shader c)\<lparr>shader_cache := cache\<rparr>\<rparr>, s1))"

definition pipeline_layout_cache_retrieve :: "handle \<Rightarrow> (handle, Context \<times> state) action" where
  "pipeline_layout_cache_retrieve descriptor_set_layout = (\<lambda>(c, s).
     let s1 = emit (EvRetrievePipelineLayout descriptor_set_layout) s in
     case retrieve (pipeline_layout_cache (ctx_pipeline c)) descriptor_set_layout
            (native (env s) (CreatePipelineLayout descriptor_set_layout)) of
       (Inl e, cache) \<Rightarrow> throw e (c, s1)
     | (Inr h, cache) \<Rightarrow>
         ok h (c\<lparr>ctx_pipeline := (ctx_pipeline c)\<lparr>pipeline_layout_cache := cache\<rparr>\<rparr>, s1))"

definition pipeline_cache_retrieve ::
  "Pipeline_Descriptor \<Rightarrow> (Pipeline_Object, Context \<times> state) action" where
  "pipeline_cache_retrieve descriptor = (\<lambda>(c, s).
     let s1 = emit (EvRetrievePipeline descriptor) s in
     case retrieve (pipeline_cache (ctx_pipeline c)) descriptor
            (native (env s) (CreateComputePipeline descriptor)) of
       (Inl e, cache) \<Rightarrow> throw e (c, s1)
     | (Inr h, cache) \<Rightarrow>
         ok \<lparr>pipeline_handle = h, pipeline_object_layout = pipeline_layout descriptor,
             pipeline_local_work_group = local_work_group descriptor\<rparr>
            (c\<lparr>ctx_pipeline := (ctx_pipeline c)\<lparr>pipeline_cache := cache\<rparr>\<rparr>, s1))"

text \<open>
  Modelled from the spec: the command buffer of Command.h, an append-only
  sequence of recorded commands.
\<close>

definition bind_pipeline :: "Pipeline_Object \<Rightarrow> Buffer \<Rightarrow> Buffer" where
  "bind_pipeline pipeline b = b\<lparr>commands := commands b @ [CmdBindPipeline pipeline]\<rparr>"

definition bind_set :: "Descriptor_Set \<Rightarrow> Buffer \<Rightarrow> Buffer" where
  "bind_set descriptor_set b = b\<lparr>commands := commands b @ [CmdBindDescriptorSet descriptor_set]\<rparr>"

definition dispatch :: "WorkGroup \<Rightarrow> Buffer \<Rightarrow> Buffer" where
  "dispatch global_work_group b = b\<lparr>commands := commands b @ [CmdDispatch global_work_group]\<rparr>"

text \<open>
  Modelled from the spec: the tensor (\<^verbatim>\<open>at::Tensor\<close>, \<^verbatim>\<open>ops::vTensor\<close> of
  ops/Tensor.h).  \<^verbatim>\<open>device().type()\<close> tells whether the data is resident
  on the device; \<^verbatim>\<open>host<T>(command_buffer)\<close> returns a future of a
  host-visible view of the data; \<^verbatim>\<open>wait()\<close> on the future returns when it has
  resolved.
\<close>

datatype DeviceType = CPU | CUDA | MKLDNN | OPENGL | OPENCL | IDEEP | HIP | FPGA
  | MSNPU | XLA | Vulkan | Metal | XPU

definition kVulkan :: DeviceType where
  "kVulkan = Vulkan"

record Tensor =
  tensor_device_type :: DeviceType
  tensor_impl :: handle

definition convert :: "Tensor \<Rightarrow> handle" where
  "convert src = tensor_impl src"

definition host :: "handle \<Rightarrow> access \<Rightarrow> handle \<Rightarrow> (Future, state) action" where
  "host v a command_buffer s =
     ok \<lparr>future_tensor = v, future_access = a, future_stream = command_buffer\<rparr>
        (emit (EvHost v a command_buffer) s)"

definition future_wait :: "Future \<Rightarrow> (unit, state) action" where
  "future_wait f s = ok () ((emit (EvFutureWait f) s)\<lparr>resolved := resolved s @ [f]\<rparr>)"

subsection \<open>Context\<close>

definition empty_ThreadContext :: ThreadContext where
  "empty_ThreadContext =
     \<lparr>tc_resource = \<lparr>resource_objects = []\<rparr>,
      tc_descriptor = \<lparr>descriptor_sets = []\<rparr>,
      tc_command = \<lparr>command_buffers = [], open_stream = None\<rparr>\<rparr>"

text \<open>
  Modelled from the spec: the constructors of \<^verbatim>\<open>Shader\<close>, \<^verbatim>\<open>Pipeline\<close> and
  \<^verbatim>\<open>ThreadContext\<close> (Shader.h, Pipeline.h and ThreadContext.h are not part
  of the file).  Each is one call that gets what \<^verbatim>\<open>gpu()\<close> hands it and
  either throws or gives a member with nothing cached and nothing allocated
  yet: cache entries are made on the first request and pool objects on
  allocation.
\<close>

definition construct_shader :: "GPU \<Rightarrow> (Shader, state) action" where
  "construct_shader g s =
     (case construct_member (env s) ShaderMember g of
        Some e \<Rightarrow> throw e (emit (EvConstructMember ShaderMember g) s)
      | None \<Rightarrow>
          ok \<lparr>shader_layout_cache = [], shader_cache = []\<rparr>
             (emit (EvConstructMember ShaderMember g) s))"

definition construct_pipeline :: "GPU \<Rightarrow> (Pipeline, state) action" where
  "construct_pipeline g s =
     (case construct_member (env s) PipelineMember g of
        Some e \<Rightarrow> throw e (emit (EvConstructMember PipelineMember g) s)
      | None \<Rightarrow>
          ok \<lparr>pipeline_layout_cache = [], pipeline_cache = []\<rparr>
             (emit (EvConstructMember PipelineMember g) s))"

definition construct_threadcontext :: "GPU \<Rightarrow> (thread \<Rightarrow> ThreadContext, state) action" where
  "construct_threadcontext g s =
     (case construct_member (env s) ThreadContextMember g of
        Some e \<Rightarrow> throw e (emit (EvConstructMember ThreadContextMember g) s)
      | None \<Rightarrow> ok (\<lambda>t. empty_ThreadContext) (emit (EvConstructMember ThreadContextMember g) s))"

text \<open>
  \<^verbatim>\<open>Context::Context(instance, adapter_i)\<close>: the seven members in the order
  of the initialiser list.  A member constructor that throws ends the
  construction; the destructor of the context does not run then, so a queue
  that was already leased stays leased.
\<close>

definition Context_ctor :: "handle \<Rightarrow> nat \<Rightarrow> (Context, state) action" where
  "Context_ctor inst adapter_i =
     and_then (adapter_device_handle adapter_i) (\<lambda>device.
     and_then (adapter_request_queue adapter_i) (\<lambda>queue.
     and_then (construct_shader
                 \<lparr>gpu_instance = inst, gpu_adapter_i = adapter_i, gpu_device = device,
                  gpu_queue = queue\<rparr>) (\<lambda>shader.
     and_then (construct_pipeline
                 \<lparr>gpu_instance = inst, gpu_adapter_i = adapter_i, gpu_device = device,
                  gpu_queue = queue\<rparr>) (\<lambda>pipeline.
     and_then (construct_threadcontext
                 \<lparr>gpu_instance = inst, gpu_adapter_i = adapter_i, gpu_device = device,
                  gpu_queue = queue\<rparr>) (\<lambda>threadcontext.
     ok \<lparr>ctx_instance = inst, ctx_adapter_i = adapter_i, ctx_device = device, ctx_queue = queue,
         ctx_shader = shader, ctx_pipeline = pipeline,
         ctx_threadcontext = threadcontext\<rparr>)))))"

text \<open>\<^verbatim>\<open>Context::~Context()\<close>: the body of the destructor.\<close>

definition Context_dtor :: "Context \<Rightarrow> (unit, state) action" where
  "Context_dtor c = adapter_return_queue (ctx_adapter_i c) (ctx_queue c)"

text \<open>
  Modelled from the spec: the accessor \<^verbatim>\<open>queue()\<close> of Context.h, which is not
  part of the file, gives the queue the context holds.
\<close>

definition queue :: "Context \<Rightarrow> handle" where
  "queue c = ctx_queue c"

text \<open>\<^verbatim>\<open>Context::flush()\<close>, called on thread \<open>t\<close>.\<close>

definition flush :: "thread \<Rightarrow> (unit, Context \<times> state) action" where
  "flush t =
     and_then (\<lambda>(c, s). lift (vkQueueWaitIdle (queue c)) (c, s)) (\<lambda>r.
     and_then (VK_CHECK r) (\<lambda>_.
     and_then (resource_pool_purge t) (\<lambda>_.
     and_then (descriptor_pool_purge t) (\<lambda>_.
     command_pool_purge t))))"

text \<open>\<^verbatim>\<open>Context::wait(src)\<close>, called on thread \<open>t\<close>.\<close>

definition wait :: "thread \<Rightarrow> Tensor \<Rightarrow> (unit, Context \<times> state) action" where
  "wait t src =
     (if kVulkan = tensor_device_type src
      then and_then (command_pool_stream t) (\<lambda>command_buffer.
           and_then (lift (host (convert src) Read command_buffer)) (\<lambda>v_src_future.
           lift (future_wait v_src_future)))
      else ok ())"

subsection \<open>The global accessors\<close>

definition nullptr :: nat where
  "nullptr = 0"

text \<open>\<^verbatim>\<open>new Context(instance, adapter_i)\<close>: never the null pointer.\<close>

definition new_Context :: "handle \<Rightarrow> nat \<Rightarrow> (nat, state) action" where
  "new_Context inst adapter_i =
     and_then (Context_ctor inst adapter_i) (\<lambda>c s.
       ok (Suc (allocated s)) (s\<lparr>heap := (heap s)(Suc (allocated s) \<mapsto> c),
                                  allocated := Suc (allocated s)\<rparr>))"

text \<open>
  The lambda that initialises the static of \<^verbatim>\<open>context()\<close>.  Both handlers end
  in \<^verbatim>\<open>TORCH_CHECK(false, ...)\<close>; the \<^verbatim>\<open>return nullptr\<close> after them is what
  would follow a check that returned.
\<close>

definition context_initializer :: "(nat, state) action" where
  "context_initializer s =
     (case new_Context (rt_instance (runtime (env s))) (default_adapter_i (runtime (env s))) s of
        (Inr p, s') \<Rightarrow> ok p s'
      | (Inl e, s') \<Rightarrow>
          and_then
            (if is_std_exception e
             then TORCH_CHECK False (''Vulkan: Failed to initialize context! Error: '' @ what e)
             else TORCH_CHECK False ''Vulkan: Failed to initialize context! Error: Unknown'')
            (\<lambda>_. ok nullptr) s')"

text \<open>
  \<^verbatim>\<open>api::context()\<close>.  A block-scope static is initialised the first time control
  passes through its declaration; when the initialiser throws, the
  initialisation is not complete and the static stays uninitialised.
\<close>

definition api_context :: "(nat, state) action" where
  "api_context =
     and_then (\<lambda>s. case context_static s of
                  Some p \<Rightarrow> ok p s
                | None \<Rightarrow> and_then context_initializer
                           (\<lambda>p s'. ok p (s'\<lparr>context_static := Some p\<rparr>)) s) (\<lambda>p.
     and_then (TORCH_INTERNAL_ASSERT_DEBUG_ONLY (p \<noteq> nullptr) ''Invalid Vulkan context!'') (\<lambda>_.
     ok p))"

text \<open>\<^verbatim>\<open>available()\<close>: the pointer converted to \<^verbatim>\<open>bool\<close>.\<close>

definition available :: "(bool, state) action" where
  "available = and_then api_context (\<lambda>p. ok (p \<noteq> nullptr))"

text \<open>
  The end of the process: the static \<^verbatim>\<open>unique_ptr\<close>, when it was initialised,
  deletes the context it holds.
\<close>

definition process_teardown :: "state \<Rightarrow> state" where
  "process_teardown s =
     (case context_static s of
        None \<Rightarrow> s
      | Some p \<Rightarrow>
          (case heap s p of
             None \<Rightarrow> s
           | Some c \<Rightarrow> (snd (Context_dtor c s))\<lparr>heap := (heap s)(p := None)\<rparr>))"

subsection \<open>The dispatch protocol\<close>

text \<open>
  \<^verbatim>\<open>dispatch_prologue\<close>, called on thread \<open>t\<close>.  The command buffer is passed
  by reference: it is the first component of the state.  The members of the
  braced list that makes the pipeline descriptor are evaluated in the order
  they are written.
\<close>

definition dispatch_prologue ::
  "thread \<Rightarrow> Shader_Layout_Signature \<Rightarrow> Shader_Descriptor \<Rightarrow> WorkGroup \<Rightarrow>
   (Descriptor_Set, Buffer \<times> state) action" where
  "dispatch_prologue t shader_layout_signature shader_descriptor local_work_group_size =
     and_then (lift api_context) (\<lambda>context_p.
     and_then (lift (with_this context_p
                 (shader_layout_cache_retrieve shader_layout_signature))) (\<lambda>shader_layout.
     and_then (lift (with_this context_p
                 (pipeline_layout_cache_retrieve (layout_handle shader_layout)))) (\<lambda>layout.
     and_then (lift (with_this context_p
                 (shader_cache_retrieve shader_descriptor))) (\<lambda>module.
     and_then (lift (with_this context_p
                 (pipeline_cache_retrieve
                    \<lparr>pipeline_layout = layout, shader_module = module,
                     local_work_group = local_work_group_size\<rparr>))) (\<lambda>pipeline.
     and_then (\<lambda>(command_buffer, s). ok () (bind_pipeline pipeline command_buffer, s)) (\<lambda>_.
     lift (with_this context_p (descriptor_pool_allocate t shader_layout))))))))"

text \<open>\<^verbatim>\<open>dispatch_epilogue\<close>.\<close>

definition dispatch_epilogue :: "Descriptor_Set \<Rightarrow> WorkGroup \<Rightarrow> Buffer \<Rightarrow> Buffer" where
  "dispatch_epilogue descriptor_set global_work_group command_buffer =
     dispatch global_work_group (bind_set descriptor_set command_buffer)"

subsection \<open>Callers\<close>

text \<open>
  The error that \<^verbatim>\<open>context()\<close> throws when the construction threw \<open>e\<close>: the
  first handler catches what derives from \<^verbatim>\<open>std::exception\<close>, the second
  the rest.
\<close>

definition initialization_failure :: "error \<Rightarrow> error" where
  "initialization_failure e =
     TorchCheck (if is_std_exception e
                 then ''Vulkan: Failed to initialize context! Error: '' @ what e
                 else ''Vulkan: Failed to initialize context! Error: Unknown'')"

text \<open>
  One call into the file by the rest of the program: \<^verbatim>\<open>context()\<close>,
  \<^verbatim>\<open>available()\<close>, \<^verbatim>\<open>dispatch_prologue\<close>, and \<^verbatim>\<open>flush()\<close> or
  \<^verbatim>\<open>wait()\<close> on the context that \<^verbatim>\<open>context()\<close> returned.
\<close>

inductive step :: "state \<Rightarrow> state \<Rightarrow> bool" where
  call_context: "step s (snd (api_context s))"
| call_available: "step s (snd (available s))"
| call_dispatch_prologue: "step s (snd (snd (dispatch_prologue t sig sd lwg (b, s))))"
| call_flush: "api_context s = (Inr p, s1) \<Longrightarrow> step s (snd (with_this p (flush t) s1))"
| call_wait: "api_context s = (Inr p, s1) \<Longrightarrow> step s (snd (with_this p (wait t src) s1))"

text \<open>What a call that constructs nothing leaves as it is.\<close>

definition same_process :: "state \<Rightarrow> state \<Rightarrow> bool" where
  "same_process s s' \<longleftrightarrow>
     env s' = env s \<and> context_static s' = context_static s \<and>
     allocated s' = allocated s \<and> dom (heap s') = dom (heap s)"

definition stable :: "('a, 'x \<times> state) action \<Rightarrow> bool" where
  "stable m \<longleftrightarrow> (\<forall>x s. same_process s (snd (snd (m (x, s)))))"

text \<open>
  The live contexts are none while the static is uninitialised, and afterwards
  the one the static points to.
\<close>

definition singleton_ok :: "state \<Rightarrow> bool" where
  "singleton_ok s \<longleftrightarrow>
     (case context_static s of
        None \<Rightarrow> dom (heap s) = {}
      | Some p \<Rightarrow> p \<noteq> nullptr \<and> dom (heap s) = {p})"

text \<open>
  Reading a command stream: the pipeline that is bound after a sequence of
  commands, and the dispatches of the sequence, each with the pipeline that is
  bound where it stands.
\<close>

fun bound_pipeline :: "Pipeline_Object option \<Rightarrow> command list \<Rightarrow> Pipeline_Object option" where
  "bound_pipeline cur [] = cur"
| "bound_pipeline cur (CmdBindPipeline p # cs) = bound_pipeline (Some p) cs"
| "bound_pipeline cur (CmdBindDescriptorSet d # cs) = bound_pipeline cur cs"
| "bound_pipeline cur (CmdDispatch g # cs) = bound_pipeline cur cs"

fun recorded_dispatches ::
  "Pipeline_Object option \<Rightarrow> command list \<Rightarrow> (WorkGroup \<times> Pipeline_Object option) list" where
  "recorded_dispatches cur [] = []"
| "recorded_dispatches cur (CmdBindPipeline p # cs) = recorded_dispatches (Some p) cs"
| "recorded_dispatches cur (CmdBindDescriptorSet d # cs) = recorded_dispatches cur cs"
| "recorded_dispatches cur (CmdDispatch g # cs) = (g, cur) # recorded_dispatches cur cs"

subsection \<open>Concrete programs\<close>

text \<open>
  A runtime with one working adapter, a driver that reports success, and the
  state of a process that has not called anything yet.
\<close>

definition example_runtime :: Runtime where
  "example_runtime =
     \<lparr>rt_instance = 1, default_adapter_i = 0,
      get_adapter = (\<lambda>i. \<lparr>device_handle = Inr 7, request_queue = Inr 9\<rparr>)\<rparr>"

definition example_env :: env where
  "example_env =
     \<lparr>debug_build = True, portability_subset = True, vulkan_volk = False,
      native = (\<lambda>call. VK_SUCCESS),
      construct_member = (\<lambda>m g. None),
      enumerate_count = (\<lambda>pd. (VK_SUCCESS, 2)),
      enumerate_properties =
        (\<lambda>pd n. (VK_SUCCESS, [''VK_KHR_swapchain'', ''VK_KHR_portability_subset''])),
      create_device_result = (\<lambda>pd family extensions. (VK_SUCCESS, 7)),
      device_queue = (\<lambda>device family index. 9),
      runtime = example_runtime\<rparr>"

definition initial_state :: "env \<Rightarrow> state" where
  "initial_state e =
     \<lparr>env = e, trace = [], leased = [], in_flight = [], resolved = [],
      heap = (\<lambda>p. None), allocated = 0, context_static = None\<rparr>"

text \<open>A context whose threads all have objects in their pools and a stream open.\<close>

definition busy_ThreadContext :: ThreadContext where
  "busy_ThreadContext =
     \<lparr>tc_resource = \<lparr>resource_objects = [1, 2]\<rparr>,
      tc_descriptor = \<lparr>descriptor_sets = []\<rparr>,
      tc_command = \<lparr>command_buffers = [4], open_stream = Some 4\<rparr>\<rparr>"

definition example_context :: Context where
  "example_context =
     \<lparr>ctx_instance = 1, ctx_adapter_i = 0, ctx_device = 7, ctx_queue = 9,
      ctx_shader = \<lparr>shader_layout_cache = [], shader_cache = []\<rparr>,
      ctx_pipeline = \<lparr>pipeline_layout_cache = [], pipeline_cache = []\<rparr>,
      ctx_threadcontext = (\<lambda>t. busy_ThreadContext)\<rparr>"

text \<open>Threads 0 and 1 have work in flight on queue 9, thread 1 also on queue 5.\<close>

definition busy_state :: "env \<Rightarrow> state" where
  "busy_state e = (initial_state e)\<lparr>in_flight := [(9, 0), (9, 1), (5, 1)]\<rparr>"

text \<open>A driver that answers every call with \<^verbatim>\<open>VK_ERROR_DEVICE_LOST\<close>.\<close>

definition device_lost_env :: env where
  "device_lost_env = example_env\<lparr>native := (\<lambda>call. - 4)\<rparr>"

text \<open>A tensor in host memory and a tensor in device memory.\<close>

definition cpu_tensor :: Tensor where
  "cpu_tensor = \<lparr>tensor_device_type = CPU, tensor_impl = 3\<rparr>"

definition vulkan_tensor :: Tensor where
  "vulkan_tensor = \<lparr>tensor_device_type = Vulkan, tensor_impl = 3\<rparr>"

text \<open>What the constructor builds from \<open>example_runtime\<close>.\<close>

definition constructed_context :: Context where
  "constructed_context =
     \<lparr>ctx_instance = 1, ctx_adapter_i = 0, ctx_device = 7, ctx_queue = 9,
      ctx_shader = \<lparr>shader_layout_cache = [], shader_cache = []\<rparr>,
      ctx_pipeline = \<lparr>pipeline_layout_cache = [], pipeline_cache = []\<rparr>,
      ctx_threadcontext = (\<lambda>t. empty_ThreadContext)\<rparr>"

text \<open>What \<^verbatim>\<open>gpu()\<close> hands to the members of that context.\<close>

definition example_gpu :: GPU where
  "example_gpu = \<lparr>gpu_instance = 1, gpu_adapter_i = 0, gpu_device = 7, gpu_queue = 9\<rparr>"

text \<open>
  A driver where \<^verbatim>\<open>vkCreateDevice\<close> reports
  \<^verbatim>\<open>VK_ERROR_INITIALIZATION_FAILED\<close> and leaves the device null, and where
  \<^verbatim>\<open>vkGetDeviceQueue\<close> gives a null queue.
\<close>

definition null_handles_env :: env where
  "null_handles_env =
     example_env
       \<lparr>create_device_result := (\<lambda>pd family extensions. (- 3, VK_NULL_HANDLE)),
        device_queue := (\<lambda>device family index. VK_NULL_HANDLE)\<rparr>"


text \<open>A runtime whose adapter cannot create the device.\<close>

definition no_device_env :: env where
  "no_device_env =
     example_env
       \<lparr>runtime := example_runtime
          \<lparr>get_adapter := (\<lambda>i. \<lparr>device_handle = Inl (StdException ''no device''),
                                  request_queue = Inr 9\<rparr>)\<rparr>\<rparr>"

text \<open>
  A dispatch: the signature and the shader, the stream it is recorded in, and
  the pipeline and the descriptor set that the first prologue of a process
  produces.
\<close>

definition example_signature :: Shader_Layout_Signature where
  "example_signature = [STORAGE_BUFFER, STORAGE_BUFFER, UNIFORM_BUFFER]"

definition example_buffer :: Buffer where
  "example_buffer = \<lparr>buffer_handle = 4, commands = []\<rparr>"

definition example_pipeline :: Pipeline_Object where
  "example_pipeline =
     \<lparr>pipeline_handle = 1, pipeline_object_layout = 1, pipeline_local_work_group = (4, 4, 1)\<rparr>"

definition example_set :: Descriptor_Set where
  "example_set =
     \<lparr>set_handle = 1,
      set_layout = \<lparr>layout_handle = 1, layout_signature = example_signature\<rparr>,
      set_bindings = []\<rparr>"

section \<open>Properties\<close>

subsection \<open>The trace\<close>

lemma emit_fields [simp]:
  "env (emit e s) = env s"
  "trace (emit e s) = trace s @ [e]"
  "leased (emit e s) = leased s"
  "in_flight (emit e s) = in_flight s"
  "resolved (emit e s) = resolved s"
  "heap (emit e s) = heap s"
  "allocated (emit e s) = allocated s"
  "context_static (emit e s) = context_static s"
  by (simp_all add: emit_def)

subsection \<open>flush\<close>

lemmas flush_defs = flush_def and_then_def lift_def vkQueueWaitIdle_def ok_def throw_def
  VK_CHECK_def resource_pool_purge_def descriptor_pool_purge_def command_pool_purge_def
  emit_def Let_def update_thread_def

lemma purged_thread:
  "tc\<lparr>tc_resource := \<lparr>resource_objects = []\<rparr>,
      tc_descriptor := \<lparr>descriptor_sets = []\<rparr>,
      tc_command := \<lparr>command_buffers = [], open_stream = None\<rparr>\<rparr> = empty_ThreadContext"
  by (simp add: empty_ThreadContext_def)

text \<open>
  C2.  \<^verbatim>\<open>flush()\<close> first waits for the queue of the context.  When the wait
  reports success, all work that was in flight on that queue has completed and
  only then are the resource, descriptor and command pools of the calling
  thread purged, in that order.  When the wait does not report success,
  \<^verbatim>\<open>flush()\<close> throws the result and has purged nothing: the context is as it
  was.
\<close>

theorem flush_waits_then_purges:
  "(native (env s) (QueueWaitIdle (queue c)) = VK_SUCCESS \<longrightarrow>
      fst (flush t (c, s)) = Inr () \<and>
      trace (snd (snd (flush t (c, s)))) =
        trace s @ [EvQueueWaitIdle (queue c), EvPurge ResourcePool t,
                   EvPurge DescriptorPool t, EvPurge CommandPool t] \<and>
      in_flight (snd (snd (flush t (c, s)))) =
        filter (\<lambda>(q, u). q \<noteq> queue c) (in_flight s) \<and>
      ctx_threadcontext (fst (snd (flush t (c, s)))) t = empty_ThreadContext) \<and>
   (native (env s) (QueueWaitIdle (queue c)) \<noteq> VK_SUCCESS \<longrightarrow>
      fst (flush t (c, s)) = Inl (VkCheck (native (env s) (QueueWaitIdle (queue c)))) \<and>
      trace (snd (snd (flush t (c, s)))) = trace s @ [EvQueueWaitIdle (queue c)] \<and>
      in_flight (snd (snd (flush t (c, s)))) = in_flight s \<and>
      fst (snd (flush t (c, s))) = c)"
  by (simp add: flush_defs purged_thread)

theorem flush_waits_then_purges_witness:
  "fst (flush 0 (example_context, busy_state example_env)) = Inr () \<and>
   trace (snd (snd (flush 0 (example_context, busy_state example_env)))) =
     [EvQueueWaitIdle 9, EvPurge ResourcePool 0, EvPurge DescriptorPool 0,
      EvPurge CommandPool 0] \<and>
   in_flight (snd (snd (flush 0 (example_context, busy_state example_env)))) = [(5, 1)] \<and>
   fst (flush 0 (example_context, busy_state device_lost_env)) = Inl (VkCheck (- 4)) \<and>
   trace (snd (snd (flush 0 (example_context, busy_state device_lost_env)))) =
     [EvQueueWaitIdle 9] \<and>
   fst (snd (flush 0 (example_context, busy_state device_lost_env))) = example_context"
  using flush_waits_then_purges [of "busy_state example_env" example_context 0]
        flush_waits_then_purges [of "busy_state device_lost_env" example_context 0]
  by (simp add: busy_state_def initial_state_def example_env_def device_lost_env_def
        example_context_def queue_def VK_SUCCESS_def)

text \<open>
  C10.  \<^verbatim>\<open>flush()\<close> called on thread \<open>t\<close> leaves the pools of every other
  thread as they were, whether it returns or throws.  When the wait succeeds,
  the three pools of thread \<open>t\<close> are empty afterwards, and the work that has
  completed is the work of the queue, whichever thread had submitted it.
\<close>

theorem flush_leaves_other_threads:
  "(\<forall>u. u \<noteq> t \<longrightarrow>
      ctx_threadcontext (fst (snd (flush t (c, s)))) u = ctx_threadcontext c u) \<and>
   (native (env s) (QueueWaitIdle (queue c)) = VK_SUCCESS \<longrightarrow>
      ctx_threadcontext (fst (snd (flush t (c, s)))) t = empty_ThreadContext \<and>
      in_flight (snd (snd (flush t (c, s)))) =
        filter (\<lambda>(q, u). q \<noteq> queue c) (in_flight s))"
  by (simp add: flush_defs purged_thread)

theorem flush_leaves_other_threads_witness:
  "ctx_threadcontext (fst (snd (flush 0 (example_context, busy_state example_env)))) 1 =
     busy_ThreadContext \<and>
   ctx_threadcontext (fst (snd (flush 0 (example_context, busy_state example_env)))) 0 =
     empty_ThreadContext \<and>
   in_flight (snd (snd (flush 0 (example_context, busy_state example_env)))) = [(5, 1)]"
  using flush_leaves_other_threads [of 0 example_context "busy_state example_env"]
  by (simp add: busy_state_def initial_state_def example_env_def
        example_context_def queue_def VK_SUCCESS_def)

subsection \<open>wait\<close>

lemmas wait_defs = wait_def and_then_def lift_def command_pool_stream_def host_def
  future_wait_def ok_def throw_def emit_def Let_def update_thread_def

text \<open>
  C5.  When the tensor is not on the Vulkan device, \<^verbatim>\<open>wait()\<close> returns at once
  and nothing has changed: no command stream was obtained, no pool of the
  context and no part of the program state (trace, queue, futures) differs.
\<close>

theorem wait_is_noop_off_device:
  "tensor_device_type src \<noteq> kVulkan \<Longrightarrow> wait t src (c, s) = (Inr (), (c, s))"
  by (auto simp add: wait_def ok_def)

theorem wait_is_noop_off_device_witness:
  "tensor_device_type cpu_tensor \<noteq> kVulkan \<and>
   wait 0 cpu_tensor (example_context, busy_state example_env) =
     (Inr (), (example_context, busy_state example_env))"
  using wait_is_noop_off_device [of cpu_tensor 0 example_context "busy_state example_env"]
  by (simp add: cpu_tensor_def kVulkan_def)

text \<open>
  C6.  When the tensor is on the Vulkan device and the calling thread has a
  stream open or the driver can allocate one, \<^verbatim>\<open>wait()\<close> returns normally
  after three calls, in this order: it obtains the stream \<open>b\<close> of the calling
  thread (the open one when there is one), requests through \<open>b\<close> a future of
  a read-only host view of the tensor's data, and waits for that future, which
  is resolved when \<^verbatim>\<open>wait()\<close> returns.
\<close>

theorem wait_on_device:
  assumes "tensor_device_type src = kVulkan"
    and "open_stream (tc_command (ctx_threadcontext c t)) = None \<longrightarrow>
           native (env s) AllocateCommandBuffer = VK_SUCCESS"
  shows "\<exists>b. fst (wait t src (c, s)) = Inr () \<and>
           open_stream (tc_command (ctx_threadcontext (fst (snd (wait t src (c, s)))) t)) =
             Some b \<and>
           (\<forall>b'. open_stream (tc_command (ctx_threadcontext c t)) = Some b' \<longrightarrow> b = b') \<and>
           trace (snd (snd (wait t src (c, s)))) =
             trace s @ [EvStream t, EvHost (convert src) Read b,
                        EvFutureWait \<lparr>future_tensor = convert src, future_access = Read,
                                      future_stream = b\<rparr>] \<and>
           resolved (snd (snd (wait t src (c, s)))) =
             resolved s @ [\<lparr>future_tensor = convert src, future_access = Read,
                            future_stream = b\<rparr>]"
  using assms
  by (cases "open_stream (tc_command (ctx_threadcontext c t))") (auto simp add: wait_defs)

theorem wait_on_device_witness:
  "tensor_device_type vulkan_tensor = kVulkan \<and>
   fst (wait 0 vulkan_tensor (example_context, busy_state example_env)) = Inr () \<and>
   trace (snd (snd (wait 0 vulkan_tensor (example_context, busy_state example_env)))) =
     [EvStream 0, EvHost 3 Read 4,
      EvFutureWait \<lparr>future_tensor = 3, future_access = Read, future_stream = 4\<rparr>] \<and>
   resolved (snd (snd (wait 0 vulkan_tensor (example_context, busy_state example_env)))) =
     [\<lparr>future_tensor = 3, future_access = Read, future_stream = 4\<rparr>]"
  using wait_on_device [of vulkan_tensor example_context 0 "busy_state example_env"]
  by (simp add: vulkan_tensor_def kVulkan_def example_context_def busy_ThreadContext_def
       busy_state_def initial_state_def convert_def)

subsection \<open>Construction and destruction\<close>

lemmas ctor_defs = Context_ctor_def adapter_device_handle_def adapter_request_queue_def
  construct_shader_def construct_pipeline_def construct_threadcontext_def
  and_then_def ok_def throw_def emit_def

lemmas create_device_defs = create_device_def acquire_queue_def and_then_def ok_def throw_def
  TORCH_CHECK_def TORCH_INTERNAL_ASSERT_DEBUG_ONLY_def VK_CHECK_def volk_load_def

text \<open>
  C8.  A context that the constructor built for adapter \<open>i\<close> holds the queue
  that \<^verbatim>\<open>request_queue()\<close> of that adapter handed out, and the lease is
  recorded; \<^verbatim>\<open>flush()\<close> and \<^verbatim>\<open>wait()\<close> keep the queue and the adapter
  of the context.  Its destructor, in whatever state it runs, makes one call,
  \<^verbatim>\<open>return_queue\<close> on adapter \<open>i\<close> with that queue, which ends one lease of
  it; nothing else of the state changes: no wait for the queue, no purge, no
  other call.
\<close>

theorem destructor_returns_the_queue:
  assumes "Context_ctor inst i s0 = (Inr c, s1)"
  shows "request_queue (get_adapter (runtime (env s0)) i) = Inr (ctx_queue c) \<and>
         ctx_adapter_i c = i \<and>
         leased s1 = leased s0 @ [(i, ctx_queue c)] \<and>
         ctx_queue (fst (snd (flush t (c, s)))) = ctx_queue c \<and>
         ctx_adapter_i (fst (snd (flush t (c, s)))) = i \<and>
         ctx_queue (fst (snd (wait t src (c, s)))) = ctx_queue c \<and>
         ctx_adapter_i (fst (snd (wait t src (c, s)))) = i \<and>
         Context_dtor c s =
           (Inr (), s\<lparr>trace := trace s @ [EvReturnQueue i (ctx_queue c)],
                      leased := remove1 (i, ctx_queue c) (leased s)\<rparr>)"
proof -
  have built: "request_queue (get_adapter (runtime (env s0)) i) = Inr (ctx_queue c) \<and>
      ctx_adapter_i c = i \<and> leased s1 = leased s0 @ [(i, ctx_queue c)]"
    using assms by (auto simp add: ctor_defs split: sum.splits option.splits)
  have kept_by_flush: "ctx_queue (fst (snd (flush t (c, s)))) = ctx_queue c \<and>
      ctx_adapter_i (fst (snd (flush t (c, s)))) = ctx_adapter_i c"
    by (simp add: flush_defs)
  have kept_by_wait: "ctx_queue (fst (snd (wait t src (c, s)))) = ctx_queue c \<and>
      ctx_adapter_i (fst (snd (wait t src (c, s)))) = ctx_adapter_i c"
    by (simp add: wait_defs split: option.splits)
  have destroyed: "Context_dtor c s =
           (Inr (), s\<lparr>trace := trace s @ [EvReturnQueue (ctx_adapter_i c) (ctx_queue c)],
                      leased := remove1 (ctx_adapter_i c, ctx_queue c) (leased s)\<rparr>)"
    by (simp add: Context_dtor_def adapter_return_queue_def ok_def emit_def)
  from built kept_by_flush kept_by_wait destroyed show ?thesis by simp
qed

theorem destructor_returns_the_queue_witness:
  "fst (Context_ctor 1 0 (initial_state example_env)) = Inr constructed_context \<and>
   trace (snd (Context_dtor constructed_context
                 (snd (Context_ctor 1 0 (initial_state example_env))))) =
     [EvDeviceHandle 0, EvRequestQueue 0, EvConstructMember ShaderMember example_gpu,
      EvConstructMember PipelineMember example_gpu,
      EvConstructMember ThreadContextMember example_gpu, EvReturnQueue 0 9] \<and>
   leased (snd (Context_ctor 1 0 (initial_state example_env))) = [(0, 9)] \<and>
   leased (snd (Context_dtor constructed_context
                  (snd (Context_ctor 1 0 (initial_state example_env))))) = []"
  using destructor_returns_the_queue [where inst = 1 and i = 0
          and ?s0.0 = "initial_state example_env" and c = constructed_context
          and ?s1.0 = "snd (Context_ctor 1 0 (initial_state example_env))"
          and s = "snd (Context_ctor 1 0 (initial_state example_env))"]
  by (simp add: ctor_defs initial_state_def example_env_def example_runtime_def
        constructed_context_def example_gpu_def)

text \<open>
  What \<^verbatim>\<open>create_device\<close> and \<^verbatim>\<open>acquire_queue\<close> let through.
  \<^verbatim>\<open>create_device\<close> returns a device only when both enumerations of the
  extensions and \<^verbatim>\<open>vkCreateDevice\<close> reported success and the device is not
  null; \<^verbatim>\<open>acquire_queue\<close> returns a queue only when the queue it obtained is
  not null.  Otherwise they throw.
\<close>

lemma create_device_checks:
  assumes "fst (create_device pd family s) = Inr d"
  shows "d \<noteq> VK_NULL_HANDLE \<and>
      fst (enumerate_count (env s) pd) = VK_SUCCESS \<and>
      fst (enumerate_properties (env s) pd (snd (enumerate_count (env s) pd))) = VK_SUCCESS \<and>
      create_device_result (env s) pd family
        (enable_extensions (requested_device_extensions (env s))
           (device_extension_properties (snd (enumerate_count (env s) pd))
              (snd (enumerate_properties (env s) pd (snd (enumerate_count (env s) pd))))) [])
        = (VK_SUCCESS, d)"
  using assms by (auto simp add: create_device_defs split: prod.splits if_splits)

lemma acquire_queue_checks:
  assumes "fst (acquire_queue device family s) = Inr q"
  shows "q \<noteq> VK_NULL_HANDLE \<and> q = device_queue (env s) device family 0"
  using assms by (auto simp add: create_device_defs split: prod.splits if_splits)

lemma create_device_examples:
  "fst (create_device 5 0 (initial_state example_env)) = Inr 7 \<and>
   trace (snd (create_device 5 0 (initial_state example_env))) =
     [EvEnumerateDeviceExtensionProperties 5, EvEnumerateDeviceExtensionProperties 5,
      EvCreateDevice 5 0 [''VK_KHR_portability_subset'']] \<and>
   fst (acquire_queue 7 0 (initial_state example_env)) = Inr 9 \<and>
   fst (create_device 5 0 (initial_state null_handles_env)) = Inl (VkCheck (- 3)) \<and>
   fst (acquire_queue 7 0 (initial_state null_handles_env)) =
     Inl (TorchCheck ''Invalid Vulkan queue!'')"
  by (simp add: create_device_defs initial_state_def example_env_def
        example_runtime_def null_handles_env_def VK_SUCCESS_def
        VK_NULL_HANDLE_def requested_device_extensions_def
        VK_KHR_PORTABILITY_SUBSET_EXTENSION_NAME_def device_extension_properties_def)

text \<open>
  The constructor of \<^verbatim>\<open>Context\<close> calls neither of the two: whatever happens,
  the calls it adds to the trace are calls of the adapter and of the
  constructors of its members.
\<close>

lemma constructor_calls:
  "set (trace (snd (Context_ctor inst i s))) \<subseteq>
     set (trace s) \<union>
     ({EvDeviceHandle i, EvRequestQueue i} \<union> {e. \<exists>m g. e = EvConstructMember m g})"
  by (auto simp add: ctor_defs split: sum.splits option.splits)

subsection \<open>The singleton\<close>

lemmas example_defs = initial_state_def example_env_def example_runtime_def


lemma ctor_frame:
  "env (snd (Context_ctor inst i s)) = env s"
  "heap (snd (Context_ctor inst i s)) = heap s"
  "allocated (snd (Context_ctor inst i s)) = allocated s"
  "context_static (snd (Context_ctor inst i s)) = context_static s"
  by (simp_all add: ctor_defs split: sum.splits option.splits)

lemmas context_defs = api_context_def context_initializer_def new_Context_def and_then_def
  ok_def throw_def TORCH_CHECK_def TORCH_INTERNAL_ASSERT_DEBUG_ONLY_def

lemma api_context_initialized:
  "context_static s = Some p \<Longrightarrow> p \<noteq> nullptr \<Longrightarrow> api_context s = (Inr p, s)"
  by (simp add: context_defs)

lemma api_context_failure:
  assumes "context_static s = None"
    and "fst (Context_ctor (rt_instance (runtime (env s))) (default_adapter_i (runtime (env s))) s) = Inl e"
  shows "api_context s =
           (Inl (initialization_failure e),
            snd (Context_ctor (rt_instance (runtime (env s))) (default_adapter_i (runtime (env s))) s))"
  using assms
  by (cases "Context_ctor (rt_instance (runtime (env s))) (default_adapter_i (runtime (env s))) s")
     (simp add: context_defs initialization_failure_def)

lemma api_context_success:
  assumes "context_static s = None"
    and "Context_ctor (rt_instance (runtime (env s))) (default_adapter_i (runtime (env s))) s = (Inr c, s1)"
  shows "api_context s =
           (Inr (Suc (allocated s)),
            s1\<lparr>heap := (heap s)(Suc (allocated s) \<mapsto> c), allocated := Suc (allocated s),
               context_static := Some (Suc (allocated s))\<rparr>)"
proof -
  have "heap s1 = heap s" "allocated s1 = allocated s"
    using ctor_frame(2,3) [of "rt_instance (runtime (env s))" "default_adapter_i (runtime (env s))" s] assms(2)
    by simp_all
  then show ?thesis
    using assms by (simp add: context_defs nullptr_def)
qed

lemma available_state: "snd (available s) = snd (api_context s)"
  by (cases "api_context s" rule: prod.exhaust; cases "fst (api_context s)")
     (auto simp add: available_def and_then_def ok_def)

lemma available_result:
  "fst (available s) = map_sum id (\<lambda>p. p \<noteq> nullptr) (fst (api_context s))"
  by (cases "api_context s" rule: prod.exhaust; cases "fst (api_context s)")
     (auto simp add: available_def and_then_def ok_def)


lemma same_process_refl: "same_process s s"
  by (simp add: same_process_def)

lemma same_process_trans: "same_process s s' \<Longrightarrow> same_process s' s'' \<Longrightarrow> same_process s s''"
  by (simp add: same_process_def)

lemma with_this_same:
  assumes "\<And>c. env (snd (snd (m (c, s)))) = env s \<and>
                context_static (snd (snd (m (c, s)))) = context_static s \<and>
                allocated (snd (snd (m (c, s)))) = allocated s \<and>
                heap (snd (snd (m (c, s)))) = heap s"
  shows "same_process s (snd (with_this p m s))"
proof (cases "heap s p")
  case None
  then show ?thesis by (simp add: with_this_def throw_def same_process_def)
next
  case (Some c)
  obtain r c' s' where m: "m (c, s) = (r, (c', s'))" by (metis prod.exhaust)
  with assms [of c] have "env s' = env s" "context_static s' = context_static s"
    "allocated s' = allocated s" "heap s' = heap s" by simp_all
  moreover have "p \<in> dom (heap s)" using Some by auto
  ultimately show ?thesis
    using Some m by (auto simp add: with_this_def same_process_def)
qed

lemma cache_states:
  "snd (snd (shader_layout_cache_retrieve sig (c, s))) = emit (EvRetrieveShaderLayout sig) s"
  "snd (snd (pipeline_layout_cache_retrieve h (c, s))) = emit (EvRetrievePipelineLayout h) s"
  "snd (snd (shader_cache_retrieve sd (c, s))) = emit (EvRetrieveShader sd) s"
  "snd (snd (pipeline_cache_retrieve pd (c, s))) = emit (EvRetrievePipeline pd) s"
  "snd (snd (descriptor_pool_allocate t l (c, s))) =
     emit (EvAllocateDescriptorSet t (layout_handle l)) s"
  by (simp_all add: shader_layout_cache_retrieve_def pipeline_layout_cache_retrieve_def
        shader_cache_retrieve_def pipeline_cache_retrieve_def descriptor_pool_allocate_def
        ok_def throw_def Let_def split: prod.splits sum.splits)

lemma flush_frame:
  "env (snd (snd (flush t (c, s)))) = env s \<and>
   context_static (snd (snd (flush t (c, s)))) = context_static s \<and>
   allocated (snd (snd (flush t (c, s)))) = allocated s \<and>
   heap (snd (snd (flush t (c, s)))) = heap s"
  by (simp add: flush_defs)

lemma wait_frame:
  "env (snd (snd (wait t src (c, s)))) = env s \<and>
   context_static (snd (snd (wait t src (c, s)))) = context_static s \<and>
   allocated (snd (snd (wait t src (c, s)))) = allocated s \<and>
   heap (snd (snd (wait t src (c, s)))) = heap s"
  by (simp add: wait_defs split: option.splits)

lemma stable_and_then:
  assumes "stable m" and "\<And>x. stable (f x)"
  shows "stable (and_then m f)"
proof -
  have "same_process s (snd (snd (and_then m f (x, s))))" for x s
  proof -
    obtain r x' s' where run: "m (x, s) = (r, (x', s'))" by (metis prod.exhaust)
    have a: "same_process s s'"
      using assms(1) run by (simp add: stable_def) (metis snd_conv)
    show ?thesis
    proof (cases r)
      case (Inl e)
      with run a show ?thesis by (simp add: and_then_def)
    next
      case (Inr y)
      have "same_process s' (snd (snd (f y (x', s'))))"
        using assms(2) [of y] by (simp add: stable_def)
      with run a Inr show ?thesis
        by (simp add: and_then_def) (metis same_process_trans)
    qed
  qed
  then show ?thesis by (simp add: stable_def)
qed

lemma stable_lift:
  assumes "\<And>s. same_process s (snd (m s))"
  shows "stable (lift m)"
  using assms by (simp add: stable_def lift_def split: prod.splits) (metis snd_conv)

lemma stable_bind: "stable (\<lambda>(command_buffer, s). ok () (g command_buffer, s))"
  by (simp add: stable_def ok_def same_process_refl)

lemma prologue_rest_stable:
  "stable
     (and_then (lift (with_this p (shader_layout_cache_retrieve sig))) (\<lambda>shader_layout.
      and_then (lift (with_this p
                  (pipeline_layout_cache_retrieve (layout_handle shader_layout)))) (\<lambda>layout.
      and_then (lift (with_this p (shader_cache_retrieve sd))) (\<lambda>module.
      and_then (lift (with_this p
                  (pipeline_cache_retrieve
                     \<lparr>pipeline_layout = layout, shader_module = module,
                      local_work_group = lwg\<rparr>))) (\<lambda>pipeline.
      and_then (\<lambda>(command_buffer, s). ok () (bind_pipeline pipeline command_buffer, s)) (\<lambda>_.
      lift (with_this p (descriptor_pool_allocate t shader_layout))))))))"
  by (intro stable_and_then stable_lift stable_bind with_this_same) (simp_all add: cache_states)


lemma and_then_lift:
  "and_then (lift m) f (b, s) =
     (case m s of (Inl e, s1) \<Rightarrow> (Inl e, (b, s1)) | (Inr x, s1) \<Rightarrow> f x (b, s1))"
  by (simp add: and_then_def lift_def split: prod.splits sum.splits)

lemma dispatch_prologue_unfold:
  "dispatch_prologue t sig sd lwg (b, s) =
     (case api_context s of
        (Inl e, s1) \<Rightarrow> (Inl e, (b, s1))
      | (Inr p, s1) \<Rightarrow>
          (and_then (lift (with_this p (shader_layout_cache_retrieve sig))) (\<lambda>shader_layout.
           and_then (lift (with_this p
                       (pipeline_layout_cache_retrieve (layout_handle shader_layout)))) (\<lambda>layout.
           and_then (lift (with_this p (shader_cache_retrieve sd))) (\<lambda>module.
           and_then (lift (with_this p
                       (pipeline_cache_retrieve
                          \<lparr>pipeline_layout = layout, shader_module = module,
                           local_work_group = lwg\<rparr>))) (\<lambda>pipeline.
           and_then (\<lambda>(command_buffer, s).
                       ok () (bind_pipeline pipeline command_buffer, s)) (\<lambda>_.
           lift (with_this p (descriptor_pool_allocate t shader_layout)))))))) (b, s1))"
  unfolding dispatch_prologue_def by (rule and_then_lift)

lemma dispatch_prologue_state:
  "(\<exists>e. fst (api_context s) = Inl e \<and>
        snd (snd (dispatch_prologue t sig sd lwg (b, s))) = snd (api_context s)) \<or>
   (\<exists>p. fst (api_context s) = Inr p \<and>
        same_process (snd (api_context s)) (snd (snd (dispatch_prologue t sig sd lwg (b, s)))))"
proof (cases "api_context s")
  case (Pair r s1)
  show ?thesis
  proof (cases r)
    case (Inl e)
    with Pair show ?thesis by (simp add: dispatch_prologue_unfold)
  next
    case (Inr p)
    with Pair show ?thesis
      using prologue_rest_stable [of p sig sd lwg t]
      by (simp add: dispatch_prologue_unfold stable_def)
  qed
qed

lemma same_process_ok: "same_process s s' \<Longrightarrow> singleton_ok s \<Longrightarrow> singleton_ok s'"
  by (simp add: same_process_def singleton_ok_def split: option.splits)

lemma api_context_ok:
  assumes "singleton_ok s"
  shows "singleton_ok (snd (api_context s))"
proof (cases "context_static s")
  case (Some p)
  with assms show ?thesis by (simp add: singleton_ok_def api_context_initialized)
next
  case None
  obtain r s1 where run:
    "Context_ctor (rt_instance (runtime (env s))) (default_adapter_i (runtime (env s))) s = (r, s1)"
    by (metis prod.exhaust)
  have frame: "heap s1 = heap s" "context_static s1 = context_static s"
    using ctor_frame(2,4) [of "rt_instance (runtime (env s))" "default_adapter_i (runtime (env s))" s] run
    by simp_all
  show ?thesis
  proof (cases r)
    case (Inl e)
    with run None assms frame show ?thesis
      by (simp add: api_context_failure singleton_ok_def)
  next
    case (Inr c)
    with run None assms show ?thesis
      by (simp add: api_context_success singleton_ok_def nullptr_def)
  qed
qed

lemma step_ok:
  assumes "step s s'" and "singleton_ok s"
  shows "singleton_ok s'"
  using assms
proof (cases rule: step.cases)
  case call_context
  with assms(2) show ?thesis by (simp add: api_context_ok)
next
  case call_available
  with assms(2) show ?thesis by (simp add: available_state api_context_ok)
next
  case (call_dispatch_prologue t sig sd lwg b)
  with assms(2) dispatch_prologue_state [of s t sig sd lwg b] show ?thesis
    by (auto intro: api_context_ok same_process_ok)
next
  case (call_flush p s1 t)
  have "singleton_ok s1" using api_context_ok [OF assms(2)] call_flush by simp
  moreover have "same_process s1 (snd (with_this p (flush t) s1))"
    by (rule with_this_same) (rule flush_frame)
  ultimately show ?thesis using call_flush by (auto intro: same_process_ok)
next
  case (call_wait p s1 t src)
  have "singleton_ok s1" using api_context_ok [OF assms(2)] call_wait by simp
  moreover have "same_process s1 (snd (with_this p (wait t src) s1))"
    by (rule with_this_same) (rule wait_frame)
  ultimately show ?thesis using call_wait by (auto intro: same_process_ok)
qed

lemma step_static:
  assumes "step s s'" and "singleton_ok s" and "context_static s = Some p"
  shows "context_static s' = Some p"
proof -
  have nn: "p \<noteq> nullptr" using assms(2,3) by (simp add: singleton_ok_def)
  have ctx: "api_context s = (Inr p, s)" using assms(3) nn by (rule api_context_initialized)
  from assms(1) show ?thesis
  proof (cases rule: step.cases)
    case call_context
    with ctx assms(3) show ?thesis by simp
  next
    case call_available
    with ctx assms(3) show ?thesis by (simp add: available_state)
  next
    case (call_dispatch_prologue t sig sd lwg b)
    with ctx assms(3) dispatch_prologue_state [of s t sig sd lwg b] show ?thesis
      by (auto simp add: same_process_def)
  next
    case (call_flush q s1 t)
    have "same_process s1 (snd (with_this q (flush t) s1))"
      by (rule with_this_same) (rule flush_frame)
    with ctx call_flush assms(3) show ?thesis by (simp add: same_process_def)
  next
    case (call_wait q s1 t src)
    have "same_process s1 (snd (with_this q (wait t src) s1))"
      by (rule with_this_same) (rule wait_frame)
    with ctx call_wait assms(3) show ?thesis by (simp add: same_process_def)
  qed
qed

lemma steps_ok:
  "step\<^sup>*\<^sup>* s s' \<Longrightarrow> singleton_ok s \<Longrightarrow> singleton_ok s'"
  by (induction rule: rtranclp_induct) (auto intro: step_ok)

lemma steps_static:
  "step\<^sup>*\<^sup>* s s' \<Longrightarrow> singleton_ok s \<Longrightarrow> context_static s = Some p \<Longrightarrow>
   context_static s' = Some p"
  by (induction rule: rtranclp_induct) (auto intro: step_static steps_ok)

lemma initial_ok: "singleton_ok (initial_state e)"
  by (simp add: singleton_ok_def initial_state_def)

text \<open>
  C7.  In every state that calls into the file reach from the start of the
  process: while the static of \<^verbatim>\<open>context()\<close> is uninitialised no context
  exists; when a call of \<^verbatim>\<open>context()\<close> returns, it returns a non-null
  pointer to the one context that exists; from then on, whatever is called,
  every call of \<^verbatim>\<open>context()\<close> returns that same pointer and changes
  nothing, and that context stays the only one; the end of the process destroys
  it.
\<close>

theorem context_is_a_singleton:
  assumes "step\<^sup>*\<^sup>* (initial_state e) s"
  shows "(context_static s = None \<longrightarrow> dom (heap s) = {}) \<and>
         (\<forall>p. fst (api_context s) = Inr p \<longrightarrow>
            p \<noteq> nullptr \<and> dom (heap (snd (api_context s))) = {p} \<and>
            (\<forall>s'. step\<^sup>*\<^sup>* (snd (api_context s)) s' \<longrightarrow>
               api_context s' = (Inr p, s') \<and> dom (heap s') = {p}) \<and>
            dom (heap (process_teardown (snd (api_context s)))) = {})"
proof (intro conjI allI impI)
  have ok: "singleton_ok s" using assms initial_ok by (rule steps_ok)
  show "dom (heap s) = {}" if "context_static s = None"
    using ok that by (simp add: singleton_ok_def)
  fix p assume ret: "fst (api_context s) = Inr p"
  have ok1: "singleton_ok (snd (api_context s))" using ok by (rule api_context_ok)
  have st: "context_static (snd (api_context s)) = Some p"
  proof (cases "context_static s")
    case (Some q)
    with ok ret show ?thesis by (simp add: singleton_ok_def api_context_initialized)
  next
    case None
    obtain r s1 where run:
      "Context_ctor (rt_instance (runtime (env s))) (default_adapter_i (runtime (env s))) s = (r, s1)"
      by (metis prod.exhaust)
    show ?thesis
    proof (cases r)
      case (Inl e')
      with run None ret show ?thesis by (simp add: api_context_failure)
    next
      case (Inr c)
      with run None ret show ?thesis by (simp add: api_context_success)
    qed
  qed
  show nn: "p \<noteq> nullptr" using ok1 st by (simp add: singleton_ok_def)
  show "dom (heap (snd (api_context s))) = {p}" using ok1 st by (simp add: singleton_ok_def)
  show "api_context s' = (Inr p, s')" if "step\<^sup>*\<^sup>* (snd (api_context s)) s'" for s'
    using steps_static [OF that ok1 st] nn by (rule api_context_initialized)
  show "dom (heap s') = {p}" if "step\<^sup>*\<^sup>* (snd (api_context s)) s'" for s'
    using steps_static [OF that ok1 st] steps_ok [OF that ok1] by (simp add: singleton_ok_def)
  show "dom (heap (process_teardown (snd (api_context s)))) = {}"
  proof -
    have d: "dom (heap (snd (api_context s))) = {p}"
      using ok1 st by (simp add: singleton_ok_def)
    then obtain c where "heap (snd (api_context s)) p = Some c" by auto
    then have "heap (process_teardown (snd (api_context s))) =
                 (heap (snd (api_context s)))(p := None)"
      using st by (simp add: process_teardown_def Context_dtor_def adapter_return_queue_def ok_def)
    then have "dom (heap (process_teardown (snd (api_context s)))) =
                 dom (heap (snd (api_context s))) - {p}"
      by (simp only: dom_fun_upd refl if_True)
    with d show ?thesis by simp
  qed
qed

theorem context_is_a_singleton_witness:
  "fst (api_context (initial_state example_env)) = Inr 1 \<and>
   dom (heap (snd (api_context (initial_state example_env)))) = {1} \<and>
   api_context (snd (api_context (initial_state example_env))) =
     (Inr 1, snd (api_context (initial_state example_env))) \<and>
   dom (heap (process_teardown (snd (api_context (initial_state example_env))))) = {}"
proof -
  have start: "step\<^sup>*\<^sup>* (initial_state example_env) (initial_state example_env)"
    by (rule rtranclp.rtrancl_refl)
  have first: "fst (api_context (initial_state example_env)) = Inr 1"
    by (simp add: context_defs ctor_defs example_defs nullptr_def)
  have later: "step\<^sup>*\<^sup>* (snd (api_context (initial_state example_env)))
                 (snd (api_context (initial_state example_env)))"
    by (rule rtranclp.rtrancl_refl)
  show ?thesis
    using context_is_a_singleton [OF start] first later by blast
qed

subsection \<open>Failed construction\<close>

text \<open>
  From no state in which the live contexts are as the static says does
  \<^verbatim>\<open>available()\<close> return false: it returns true or it throws.
\<close>

lemma available_never_false:
  assumes "singleton_ok s"
  shows "fst (available s) \<noteq> Inr False"
proof (cases "context_static s")
  case (Some p)
  with assms have "api_context s = (Inr p, s)"
    by (simp add: singleton_ok_def api_context_initialized)
  with Some assms show ?thesis by (simp add: available_result singleton_ok_def)
next
  case None
  obtain r s1 where run:
    "Context_ctor (rt_instance (runtime (env s))) (default_adapter_i (runtime (env s))) s = (r, s1)"
    by (metis prod.exhaust)
  show ?thesis
  proof (cases r)
    case (Inl e)
    with run None show ?thesis by (simp add: available_result api_context_failure)
  next
    case (Inr c)
    with run None show ?thesis
      by (simp add: available_result api_context_success nullptr_def)
  qed
qed

text \<open>
  C1.  The code at a runtime whose adapter cannot create the device, in a
  process that has called nothing yet: the first \<^verbatim>\<open>context()\<close> throws the
  fatal error, and so does every \<^verbatim>\<open>available()\<close> and \<^verbatim>\<open>context()\<close> after
  it, here the next two calls; \<^verbatim>\<open>available()\<close> does not return false.
  The static is still uninitialised after them, and each of the three calls
  has asked the adapter for the device again.
\<close>

theorem available_throws_after_failed_construction:
  "fst (api_context (initial_state no_device_env)) =
     Inl (TorchCheck ''Vulkan: Failed to initialize context! Error: no device'') \<and>
   fst (available (snd (api_context (initial_state no_device_env)))) =
     Inl (TorchCheck ''Vulkan: Failed to initialize context! Error: no device'') \<and>
   fst (available (snd (api_context (initial_state no_device_env)))) \<noteq> Inr False \<and>
   fst (api_context (snd (available (snd (api_context (initial_state no_device_env)))))) =
     Inl (TorchCheck ''Vulkan: Failed to initialize context! Error: no device'') \<and>
   context_static
     (snd (api_context (snd (available (snd (api_context (initial_state no_device_env))))))) =
     None \<and>
   trace (snd (api_context (snd (available (snd (api_context (initial_state no_device_env))))))) =
     [EvDeviceHandle 0, EvDeviceHandle 0, EvDeviceHandle 0]"
  by (simp add: available_def context_defs ctor_defs example_defs no_device_env_def)

subsection \<open>The dispatch protocol\<close>

lemmas prologue_defs = dispatch_prologue_def and_then_def lift_def with_this_def
  shader_layout_cache_retrieve_def pipeline_layout_cache_retrieve_def shader_cache_retrieve_def
  pipeline_cache_retrieve_def descriptor_pool_allocate_def retrieve_def fresh_handle_def
  bind_pipeline_def update_thread_def Let_def

lemma example_prologue_result:
  "fst (dispatch_prologue 0 example_signature ''add'' (4, 4, 1)
          (example_buffer, initial_state example_env)) = Inr example_set"
  by (simp add: prologue_defs context_defs ctor_defs example_defs example_set_def
        example_buffer_def empty_ThreadContext_def nullptr_def VK_SUCCESS_def)

lemma example_prologue_buffer:
  "fst (snd (dispatch_prologue 0 example_signature ''add'' (4, 4, 1)
          (example_buffer, initial_state example_env))) =
     \<lparr>buffer_handle = 4, commands = [CmdBindPipeline example_pipeline]\<rparr>"
  by (simp add: prologue_defs context_defs ctor_defs example_defs example_pipeline_def
        example_buffer_def empty_ThreadContext_def nullptr_def VK_SUCCESS_def)






lemma with_this_run:
  "heap s p = Some c \<Longrightarrow> m (c, s) = (r, (c', s')) \<Longrightarrow>
   with_this p m s = (r, s'\<lparr>heap := (heap s')(p \<mapsto> c')\<rparr>)"
  by (simp add: with_this_def)







lemma and_then_bind_step:
  "and_then (\<lambda>(command_buffer, s). ok () (g command_buffer, s)) f (b, s) = f () (g b, s)"
  by (simp add: and_then_def ok_def)







lemma bound_pipeline_append:
  "bound_pipeline cur (xs @ ys) = bound_pipeline (bound_pipeline cur xs) ys"
  by (induction cur xs rule: bound_pipeline.induct) simp_all

lemma recorded_dispatches_append:
  "recorded_dispatches cur (xs @ ys) =
     recorded_dispatches cur xs @ recorded_dispatches (bound_pipeline cur xs) ys"
  by (induction cur xs rule: recorded_dispatches.induct) simp_all

lemma pipeline_shape:
  "with_this p (pipeline_cache_retrieve d) s = (Inr po, s') \<Longrightarrow>
   pipeline_local_work_group po = local_work_group d"
  by (auto simp add: with_this_def pipeline_cache_retrieve_def throw_def ok_def Let_def
        split: option.splits prod.splits sum.splits)

lemma and_then_lift_returned:
  "and_then (lift m) f (b, s) = (Inr y, z) \<Longrightarrow>
   \<exists>x s1. m s = (Inr x, s1) \<and> f x (b, s1) = (Inr y, z)"
  by (auto simp add: and_then_lift split: prod.splits sum.splits)

lemma lift_buffer: "lift m (b, s) = (r, (b', s')) \<Longrightarrow> b' = b"
  by (auto simp add: lift_def split: prod.splits)

lemma prologue_returned:
  assumes "dispatch_prologue t sig sd lwg (b, s) = (Inr ds, (b', s'))"
  shows "\<exists>po. b' = bind_pipeline po b \<and> pipeline_local_work_group po = lwg"
  using assms
  by (auto simp add: dispatch_prologue_def and_then_bind_step
        dest!: and_then_lift_returned lift_buffer pipeline_shape)

text \<open>
  C4.  \<^verbatim>\<open>dispatch_epilogue\<close> appends two commands to the command buffer:
  the binding of the descriptor set, then one dispatch with the given global
  work group, which runs the pipeline bound at that point.  After a prologue
  that returned the set \<open>ds\<close>, whatever bindings the caller writes into
  \<open>ds\<close>, the epilogue leaves the buffer with three more commands than
  before the prologue: the binding of a pipeline whose local work group is the
  one given to the prologue, the binding of the set, and the dispatch; so the
  round trip records exactly one dispatch, with the given global work group,
  on that pipeline.
\<close>

theorem dispatch_epilogue_records_one_dispatch:
  "commands (dispatch_epilogue descriptor_set g b) =
     commands b @ [CmdBindDescriptorSet descriptor_set, CmdDispatch g] \<and>
   recorded_dispatches cur (commands (dispatch_epilogue descriptor_set g b)) =
     recorded_dispatches cur (commands b) @ [(g, bound_pipeline cur (commands b))] \<and>
   (\<forall>ds b' s'.
      dispatch_prologue t sig sd lwg (b, s) = (Inr ds, (b', s')) \<longrightarrow>
      (\<exists>po. pipeline_local_work_group po = lwg \<and>
         commands (dispatch_epilogue (ds\<lparr>set_bindings := bindings\<rparr>) g b') =
           commands b @ [CmdBindPipeline po,
                         CmdBindDescriptorSet (ds\<lparr>set_bindings := bindings\<rparr>),
                         CmdDispatch g] \<and>
         recorded_dispatches cur
             (commands (dispatch_epilogue (ds\<lparr>set_bindings := bindings\<rparr>) g b')) =
           recorded_dispatches cur (commands b) @ [(g, Some po)]))"
proof (intro conjI allI impI)
  show "commands (dispatch_epilogue descriptor_set g b) =
     commands b @ [CmdBindDescriptorSet descriptor_set, CmdDispatch g]"
    by (simp add: dispatch_epilogue_def dispatch_def bind_set_def)
  show "recorded_dispatches cur (commands (dispatch_epilogue descriptor_set g b)) =
     recorded_dispatches cur (commands b) @ [(g, bound_pipeline cur (commands b))]"
    by (simp add: dispatch_epilogue_def dispatch_def bind_set_def recorded_dispatches_append)
next
  fix ds b' s'
  assume "dispatch_prologue t sig sd lwg (b, s) = (Inr ds, (b', s'))"
  then obtain po where po: "b' = bind_pipeline po b" "pipeline_local_work_group po = lwg"
    using prologue_returned by blast
  have "commands (dispatch_epilogue (ds\<lparr>set_bindings := bindings\<rparr>) g b') =
           commands b @ [CmdBindPipeline po,
                         CmdBindDescriptorSet (ds\<lparr>set_bindings := bindings\<rparr>),
                         CmdDispatch g]"
    using po(1) by (simp add: dispatch_epilogue_def dispatch_def bind_set_def bind_pipeline_def)
  moreover from this have "recorded_dispatches cur
             (commands (dispatch_epilogue (ds\<lparr>set_bindings := bindings\<rparr>) g b')) =
           recorded_dispatches cur (commands b) @ [(g, Some po)]"
    by (simp add: recorded_dispatches_append)
  ultimately show "\<exists>po. pipeline_local_work_group po = lwg \<and>
         commands (dispatch_epilogue (ds\<lparr>set_bindings := bindings\<rparr>) g b') =
           commands b @ [CmdBindPipeline po,
                         CmdBindDescriptorSet (ds\<lparr>set_bindings := bindings\<rparr>),
                         CmdDispatch g] \<and>
         recorded_dispatches cur
             (commands (dispatch_epilogue (ds\<lparr>set_bindings := bindings\<rparr>) g b')) =
           recorded_dispatches cur (commands b) @ [(g, Some po)]"
    using po(2) by blast
qed


theorem dispatch_epilogue_records_one_dispatch_witness:
  "fst (dispatch_prologue 0 example_signature ''add'' (4, 4, 1)
          (example_buffer, initial_state example_env)) = Inr example_set \<and>
   pipeline_local_work_group example_pipeline = (4, 4, 1) \<and>
   commands (dispatch_epilogue (example_set\<lparr>set_bindings := [(0, 11), (1, 12), (2, 13)]\<rparr>)
               (8, 8, 1)
               (fst (snd (dispatch_prologue 0 example_signature ''add'' (4, 4, 1)
                            (example_buffer, initial_state example_env))))) =
     [CmdBindPipeline example_pipeline,
      CmdBindDescriptorSet (example_set\<lparr>set_bindings := [(0, 11), (1, 12), (2, 13)]\<rparr>),
      CmdDispatch (8, 8, 1)] \<and>
   recorded_dispatches None
     (commands (dispatch_epilogue (example_set\<lparr>set_bindings := [(0, 11), (1, 12), (2, 13)]\<rparr>)
                  (8, 8, 1)
                  (fst (snd (dispatch_prologue 0 example_signature ''add'' (4, 4, 1)
                               (example_buffer, initial_state example_env)))))) =
     [((8, 8, 1), Some example_pipeline)]"
proof -
  have run: "dispatch_prologue 0 example_signature ''add'' (4, 4, 1)
               (example_buffer, initial_state example_env) =
             (Inr example_set,
              (fst (snd (dispatch_prologue 0 example_signature ''add'' (4, 4, 1)
                           (example_buffer, initial_state example_env))),
               snd (snd (dispatch_prologue 0 example_signature ''add'' (4, 4, 1)
                           (example_buffer, initial_state example_env)))))"
    using example_prologue_result by (simp add: prod_eq_iff)
  have shape: "pipeline_local_work_group example_pipeline = (4, 4, 1)"
    by (simp add: example_pipeline_def)
  have cmds: "commands (dispatch_epilogue
                 (example_set\<lparr>set_bindings := [(0, 11), (1, 12), (2, 13)]\<rparr>) (8, 8, 1)
                 (fst (snd (dispatch_prologue 0 example_signature ''add'' (4, 4, 1)
                              (example_buffer, initial_state example_env))))) =
     [CmdBindPipeline example_pipeline,
      CmdBindDescriptorSet (example_set\<lparr>set_bindings := [(0, 11), (1, 12), (2, 13)]\<rparr>),
      CmdDispatch (8, 8, 1)]"
    unfolding dispatch_epilogue_def dispatch_def bind_set_def
    using example_prologue_buffer by simp
  have disp: "recorded_dispatches None
     [CmdBindPipeline example_pipeline,
      CmdBindDescriptorSet (example_set\<lparr>set_bindings := [(0, 11), (1, 12), (2, 13)]\<rparr>),
      CmdDispatch (8, 8, 1)] = [((8, 8, 1), Some example_pipeline)]"
    by simp
  show ?thesis
    using dispatch_epilogue_records_one_dispatch
            [where t = 0 and sig = example_signature and sd = "''add''" and lwg = "(4, 4, 1)"
               and b = example_buffer and s = "initial_state example_env"
               and bindings = "[(0, 11), (1, 12), (2, 13)]" and g = "(8, 8, 1)" and cur = None]
          run example_prologue_result shape cmds disp
    by (simp only:)
qed

end
